theory Spec2Isabelle
  imports Main "HOL-Library.Word"
begin

section \<open>Errors as values\<close>

text \<open>
  Go errors are values that wrap other errors. A \<^verbatim>\<open>fmt.Errorf\<close> error keeps its
  format string, the operands of the other verbs and the error given to \<^verbatim>\<open>%w\<close>;
  \<^verbatim>\<open>errors.Join\<close> keeps the list it joins. The remaining constructors are the
  sentinels of the libraries the program calls and the opaque failures of its
  external collaborators (backend, file system), told apart by their message.
\<close>

datatype error =
    ErrNotFound
  | ErrUserAborted
  | ErrExit
  | External string
  | Errorf string "string list" "error option"
  | Join "error list"

text \<open>\<^verbatim>\<open>errors.Is\<close>: the error itself or anything it wraps is the target.\<close>

fun errors_Is :: "error \<Rightarrow> error \<Rightarrow> bool" where
  "errors_Is (Errorf f ops (Some w)) t = (Errorf f ops (Some w) = t \<or> errors_Is w t)"
| "errors_Is (Join es) t = (Join es = t \<or> (\<exists>e \<in> set es. errors_Is e t))"
| "errors_Is e t = (e = t)"

section \<open>Strings: the library calls of the settings schema\<close>

text \<open>
  Go strings are byte sequences, as \<^typ>\<open>string\<close> is. \<^verbatim>\<open>strings.Split\<close> with a
  one-byte separator cuts at every occurrence of it, so a string with \<open>n\<close> separators
  gives \<open>n + 1\<close> fields and the empty string gives the one empty field. The result
  is never empty, so the second case of the inner match below is never taken.
\<close>

fun Split :: "char \<Rightarrow> string \<Rightarrow> string list" where
  "Split sep [] = [[]]"
| "Split sep (c # cs) =
     (if c = sep then [] # Split sep cs
      else (case Split sep cs of f # fs \<Rightarrow> (c # f) # fs | [] \<Rightarrow> [[c]]))"

definition CutPrefix :: "string \<Rightarrow> string \<Rightarrow> string option" where
  "CutPrefix s pre =
     (if take (length pre) s = pre then Some (drop (length pre) s) else None)"

definition HasPrefix :: "string \<Rightarrow> string \<Rightarrow> bool" where
  "HasPrefix s pre = (take (length pre) s = pre)"

text \<open>\<^verbatim>\<open>strings.SplitN(s, sep, 2)\<close> for a one-byte separator: cut at the first one.\<close>

definition SplitN2 :: "char \<Rightarrow> string \<Rightarrow> string list" where
  "SplitN2 sep s =
     (case dropWhile (\<lambda>c. c \<noteq> sep) s of
        [] \<Rightarrow> [s]
      | _ # rest \<Rightarrow> [takeWhile (\<lambda>c. c \<noteq> sep) s, rest])"

text \<open>
  \<^verbatim>\<open>strconv.Atoi\<close> on a 64-bit platform: an optional sign, then one or more decimal
  digits and nothing else; a value outside the range of \<^verbatim>\<open>int\<close> is an error too.
  The callers only test whether the error is nil, so the result is an option.
\<close>

definition digit :: "char \<Rightarrow> nat option" where
  "digit c =
     (let n = (of_char c :: nat) in if 48 \<le> n \<and> n \<le> 57 then Some (n - 48) else None)"

fun digits_val :: "nat \<Rightarrow> string \<Rightarrow> nat option" where
  "digits_val n [] = Some n"
| "digits_val n (c # cs) =
     (case digit c of None \<Rightarrow> None | Some d \<Rightarrow> digits_val (n * 10 + d) cs)"

definition Atoi :: "string \<Rightarrow> int option" where
  "Atoi s =
     (case s of
        [] \<Rightarrow> None
      | c # cs \<Rightarrow>
          (let body = (if c = CHR ''-'' \<or> c = CHR ''+'' then cs else s) in
           if body = [] then None
           else (case digits_val 0 body of
                   None \<Rightarrow> None
                 | Some n \<Rightarrow>
                     (let v = (if c = CHR ''-'' then - int n else int n) in
                      if - (2 ^ 63) \<le> v \<and> v < 2 ^ 63 then Some v else None))))"

section \<open>Settings schema and model settings (providers.go)\<close>

text \<open>
  A collection is the sequence of the settings its pointers refer to, in display order.
  Writing to the standard logger is not part of the model.
\<close>

record ModelSetting =
  DisplayName :: string
  Name :: string
  Type :: string
  DefaultValue :: string
  Value :: string

type_synonym ModelSettings = "ModelSetting list"

record Model =
  model_Name :: string
  model_DisplayName :: string
  Settings :: ModelSettings

text \<open>
  \<open>IsOfType\<close>. Whether \<^verbatim>\<open>strconv.ParseFloat(v, 64)\<close> accepts a string is the
  parameter \<open>float_ok\<close>: its grammar and its range check belong to the library. Both
  branches on the number of variants return the same membership test, as in the source.
\<close>

definition IsOfType :: "(string \<Rightarrow> bool) \<Rightarrow> string \<Rightarrow> string \<Rightarrow> bool" where
  "IsOfType float_ok v t =
     (if t = ''int'' then Atoi v \<noteq> None
      else if t = ''float'' then float_ok v
      else if t = ''string'' then True
      else if t = ''boolean'' then v = ''true'' \<or> v = ''false''
      else (case CutPrefix t ''enum:'' of
              Some variants \<Rightarrow>
                (let unionFields = Split CHR ''|'' variants in
                 if length unionFields = 0 then False
                 else if length unionFields \<le> 8 then v \<in> set unionFields
                 else v \<in> set unionFields)
            | None \<Rightarrow> False))"

fun GetModelSettingString :: "ModelSettings \<Rightarrow> string \<Rightarrow> string \<Rightarrow> string" where
  "GetModelSettingString [] name defaultValue = defaultValue"
| "GetModelSettingString (m # ms) name defaultValue =
     (if Name m = name then Value m else GetModelSettingString ms name defaultValue)"

fun GetModelSettingBool :: "ModelSettings \<Rightarrow> string \<Rightarrow> bool \<Rightarrow> bool" where
  "GetModelSettingBool [] name defaultValue = defaultValue"
| "GetModelSettingBool (m # ms) name defaultValue =
     (if Name m = name then Value m = ''true''
      else GetModelSettingBool ms name defaultValue)"

fun GetModelSettingInt :: "ModelSettings \<Rightarrow> string \<Rightarrow> int \<Rightarrow> int" where
  "GetModelSettingInt [] name defaultValue = defaultValue"
| "GetModelSettingInt (m # ms) name defaultValue =
     (if Name m = name then (case Atoi (Value m) of None \<Rightarrow> defaultValue | Some v \<Rightarrow> v)
      else GetModelSettingInt ms name defaultValue)"

section \<open>The provider contract and the registry (providers.go)\<close>

text \<open>
  A provider is an object with mutable fields that also acts on the keyring, the file
  system and its backend. Its methods are transformers of one world state \<open>'w\<close> that
  holds all of these; \<open>GetName\<close> and \<open>GetModels\<close> read nothing that changes. The
  context argument (cancellation and timeouts) is not part of the model, and
  \<open>GetModelSettings\<close> and \<open>GetSettings\<close>, which return nil, are left out.
\<close>

record LoginField =
  field_Name :: string
  field_DisplayName :: string
  field_Type :: string
  Secret :: bool

type_synonym Credentials = "string \<rightharpoonup> string"

record 'w Provider =
  GetName :: string
  GetLoginFields :: "LoginField list"
  SaveCredentials :: "Credentials \<Rightarrow> 'w \<Rightarrow> error option \<times> 'w"
  LoadCredentials :: "'w \<Rightarrow> (error + Credentials) \<times> 'w"
  DeleteCredentials :: "'w \<Rightarrow> error option \<times> 'w"
  Login :: "Credentials \<Rightarrow> 'w \<Rightarrow> error option \<times> 'w"
  GenerateImage :: "string \<Rightarrow> string \<Rightarrow> ModelSettings \<Rightarrow> 'w \<Rightarrow> (error + string list) \<times> 'w"
  GetModels :: "Model list"
  Close :: "'w \<Rightarrow> error option \<times> 'w"

text \<open>
  The registry is the package variable \<open>Providers\<close>, a list in registration order; it
  is the argument \<open>reg\<close> of every function that reads it. A lookup returns either the
  error or the provider found.
\<close>

definition GetProviderNames :: "'w Provider list \<Rightarrow> string list" where
  "GetProviderNames reg = map GetName reg"

fun GetProviderByName :: "'w Provider list \<Rightarrow> string \<Rightarrow> error + 'w Provider" where
  "GetProviderByName [] name = Inl (Errorf ''provider %q not found'' [name] None)"
| "GetProviderByName (p # ps) name =
     (if GetName p = name then Inr p else GetProviderByName ps name)"

text \<open>
  The package function \<open>Close\<close>: the loop over the registry with its accumulator
  \<open>errs\<close>, then the join.
\<close>

fun Close_loop :: "'w Provider list \<Rightarrow> error list \<Rightarrow> 'w \<Rightarrow> error list \<times> 'w" where
  "Close_loop [] errs w = (errs, w)"
| "Close_loop (p # ps) errs w =
     (case Close p w of
        (Some err, w') \<Rightarrow>
          Close_loop ps
            (errs @ [Errorf ''failed to close provider %q: %w'' [GetName p] (Some err)]) w'
      | (None, w') \<Rightarrow> Close_loop ps errs w')"

definition providers_Close :: "'w Provider list \<Rightarrow> 'w \<Rightarrow> error option \<times> 'w" where
  "providers_Close reg w =
     (case Close_loop reg [] w of
        (errs, w') \<Rightarrow> (if length errs > 0 then Some (Join errs) else None, w'))"

text \<open>
  For the statements about \<open>providers_Close\<close>: the world in which the \<open>i\<close>-th provider
  is closed, after the \<open>Close\<close> of every provider before it, and the wrapped failure of
  its \<open>Close\<close> there, if it fails.
\<close>

definition world_before :: "'w Provider list \<Rightarrow> 'w \<Rightarrow> nat \<Rightarrow> 'w" where
  "world_before ps w i = foldl (\<lambda>w p. snd (Close p w)) w (take i ps)"

definition close_failure :: "'w Provider list \<Rightarrow> 'w \<Rightarrow> nat \<Rightarrow> error option" where
  "close_failure ps w i =
     map_option (\<lambda>err. Errorf ''failed to close provider %q: %w'' [GetName (ps ! i)] (Some err))
       (fst (Close (ps ! i) (world_before ps w i)))"

section \<open>The configuration (package config)\<close>

text \<open>
  The configuration as loaded: reading and writing the file, and the pass of
  \<open>GetConfig\<close> that copies the user's default settings into the catalog, are outside
  the model.
  \<open>Provider_Get\<close> is the method \<open>Get\<close> of a configured provider entry, with its own
  loop over the registry. \<open>Config_GetModels\<close> is the iterator \<open>GetModels\<close>, as the
  sequence of the pairs it yields: it reads nothing that changes, so a consumer that
  breaks off has seen a prefix of this sequence.
\<close>

record ConfigProvider =
  provider_Name :: string

record Config =
  cfg_Providers :: "ConfigProvider list"
  DefaultModel :: string
  DefaultModelSettings :: "string \<rightharpoonup> string"

fun Provider_Get :: "'w Provider list \<Rightarrow> ConfigProvider \<Rightarrow> error + 'w Provider" where
  "Provider_Get [] p = Inl (Errorf ''provider %q not found'' [provider_Name p] None)"
| "Provider_Get (pp # pps) p =
     (if GetName pp = provider_Name p then Inr pp else Provider_Get pps p)"

fun GetModels_loop :: "'w Provider list \<Rightarrow> ConfigProvider list \<Rightarrow> (string \<times> Model) list" where
  "GetModels_loop reg [] = []"
| "GetModels_loop reg (p # ps) =
     (case Provider_Get reg p of
        Inl err \<Rightarrow> []
      | Inr pp \<Rightarrow>
          map (\<lambda>m. (GetName pp @ ''/'' @ model_Name m, m)) (GetModels pp)
            @ GetModels_loop reg ps)"

definition Config_GetModels :: "'w Provider list \<Rightarrow> Config \<Rightarrow> (string \<times> Model) list" where
  "Config_GetModels reg cfg = GetModels_loop reg (cfg_Providers cfg)"

section \<open>The interactive session (root command)\<close>

text \<open>
  The variables of the session, and what it has shown: the options given to the model
  picker, the invalid commands reported and the file paths printed and handed to the
  viewer.
\<close>

datatype shown = ModelOptions "(string \<times> string) list" | InvalidCommand string | FilePath string

record session =
  prompt :: string
  lastPrompt :: string
  model :: string
  modelSettings :: ModelSettings
  display :: "shown list"

text \<open>
  The user's part of one pass of the loop: what the prompt form returns and, should the
  pass show them, what the model picker and the settings form return. A form returns the
  error of its \<open>Run\<close> or the value entered; the settings form returns one value for each
  field, in order.
\<close>

record turn =
  prompt_form :: "error + string"
  model_form :: "error + string"
  settings_form :: "error + string list"

text \<open>
  \<open>HuhGroup\<close>: every setting with an empty value and a default is seeded first; a field
  is built for each setting of a known type, bound to the value of that setting.
\<close>

definition seed :: "ModelSetting \<Rightarrow> ModelSetting" where
  "seed m = (if Value m = '''' \<and> DefaultValue m \<noteq> '''' then m\<lparr>Value := DefaultValue m\<rparr> else m)"

definition has_field :: "ModelSetting \<Rightarrow> bool" where
  "has_field m =
     (Type m = ''int'' \<or> Type m = ''float'' \<or> Type m = ''string'' \<or> Type m = ''boolean''
      \<or> (case CutPrefix (Type m) ''enum:'' of
            Some variants \<Rightarrow> length (Split CHR ''|'' variants) \<noteq> 0
          | None \<Rightarrow> False))"

fun fill_fields :: "ModelSettings \<Rightarrow> string list \<Rightarrow> ModelSettings" where
  "fill_fields [] vs = []"
| "fill_fields (m # ms) [] = m # ms"
| "fill_fields (m # ms) (v # vs) =
     (if has_field m then m\<lparr>Value := v\<rparr> # fill_fields ms vs
      else m # fill_fields ms (v # vs))"

text \<open>The start of the command: the check that the default model is valid.\<close>

definition select_model :: "'w Provider list \<Rightarrow> Config \<Rightarrow> session" where
  "select_model reg cfg =
     (let s = \<lparr>prompt = '''', lastPrompt = '''', model = DefaultModel cfg,
                modelSettings = [], display = []\<rparr>
      in case find (\<lambda>(modelName, pm). model s = modelName) (Config_GetModels reg cfg) of
           Some (modelName, pm) \<Rightarrow> s\<lparr>modelSettings := Settings pm\<rparr>
         | None \<Rightarrow>
             (case Config_GetModels reg cfg of
                [] \<Rightarrow> s\<lparr>model := ''''\<rparr>
              | (modelName, pm) # rest \<Rightarrow> s\<lparr>model := modelName, modelSettings := Settings pm\<rparr>))"

text \<open>
  The default branch of the switch, which \<open>/retry\<close> falls through to: an invalid
  command is reported; anything else is the prompt of a generation.
\<close>

definition generate :: "'w Provider list \<Rightarrow> session \<Rightarrow> 'w \<Rightarrow> error option \<times> session \<times> 'w" where
  "generate reg s w =
     (if HasPrefix (prompt s) ''/''
      then (None, s\<lparr>display := display s @ [InvalidCommand (prompt s)]\<rparr>, w)
      else (case SplitN2 CHR ''/'' (model s) of
              [providerName, modelName] \<Rightarrow>
                (case GetProviderByName reg providerName of
                   Inl err \<Rightarrow> (Some (Errorf ''failed to get provider: %w'' [] (Some err)), s, w)
                 | Inr pp \<Rightarrow>
                     (case GenerateImage pp modelName (prompt s) (modelSettings s) w of
                        (Inl err, w') \<Rightarrow>
                          (Some (Errorf ''failed to generate image: %w'' [] (Some err)), s, w')
                      | (Inr out, w') \<Rightarrow>
                          (None, s\<lparr>lastPrompt := prompt s,
                                   display := display s @ map FilePath out\<rparr>, w')))
            | _ \<Rightarrow> (Some (Errorf ''invalid model: %q'' [model s] None), s, w)))"

text \<open>
  The closure \<open>run\<close>: one pass. In the branch of \<open>/models\<close> the loop that updates the
  settings names its loop variable \<open>model\<close>, so its test compares the name of a
  catalog entry with the composite identifier of the same entry.
\<close>

definition run :: "'w Provider list \<Rightarrow> Config \<Rightarrow> turn \<Rightarrow> session \<Rightarrow> 'w \<Rightarrow> error option \<times> session \<times> 'w" where
  "run reg cfg t s w =
     (case prompt_form t of
        Inl err \<Rightarrow> (Some (Errorf ''failed to run prompt form: %w'' [] (Some err)), s, w)
      | Inr text \<Rightarrow>
          (let s = s\<lparr>prompt := text\<rparr> in
           if text = ''/models'' then
             (let s = s\<lparr>display := display s @
                        [ModelOptions (map (\<lambda>(modelName, m). (model_DisplayName m, modelName))
                           (Config_GetModels reg cfg))]\<rparr>
              in case model_form t of
                   Inl err \<Rightarrow> (Some (Errorf ''failed to run model form: %w'' [] (Some err)), s, w)
                 | Inr choice \<Rightarrow>
                     (let s = s\<lparr>model := choice\<rparr>
                      in case find (\<lambda>(modelName, m). model_Name m = modelName)
                                (Config_GetModels reg cfg) of
                           Some (modelName, m) \<Rightarrow> (None, s\<lparr>modelSettings := Settings m\<rparr>, w)
                         | None \<Rightarrow> (None, s, w)))
           else if text = ''/settings'' then
             (let s = s\<lparr>modelSettings := map seed (modelSettings s)\<rparr>
              in case settings_form t of
                   Inl err \<Rightarrow> (Some (Errorf ''failed to run settings form: %w'' [] (Some err)), s, w)
                 | Inr vs \<Rightarrow> (None, s\<lparr>modelSettings := fill_fields (modelSettings s) vs\<rparr>, w))
           else if text = ''/exit'' then (Some ErrExit, s, w)
           else if text = ''/retry'' then generate reg (s\<lparr>prompt := lastPrompt s\<rparr>) w
           else generate reg s w))"

text \<open>
  The loop of the command over the turns of the user. It ends when a pass returns an
  error: \<open>Returned\<close> carries what the command returns (nil after an exit or a user abort),
  the session, the world and the turns that were not read. When the turns run out the
  loop is waiting in the prompt form.
\<close>

datatype 'w outcome =
    Returned "error option" session 'w "turn list"
  | AwaitingPrompt session 'w

fun loop :: "'w Provider list \<Rightarrow> Config \<Rightarrow> session \<Rightarrow> 'w \<Rightarrow> turn list \<Rightarrow> 'w outcome" where
  "loop reg cfg s w [] = AwaitingPrompt s w"
| "loop reg cfg s w (t # ts) =
     (case run reg cfg t s w of
        (Some err, s', w') \<Rightarrow>
          (if errors_Is err ErrExit then Returned None s' w' ts
           else if errors_Is err ErrUserAborted then Returned None s' w' ts
           else Returned (Some err) s' w' ts)
      | (None, s', w') \<Rightarrow> loop reg cfg (s'\<lparr>prompt := ''''\<rparr>) w' ts)"

definition RunE :: "'w Provider list \<Rightarrow> Config \<Rightarrow> 'w \<Rightarrow> turn list \<Rightarrow> 'w outcome" where
  "RunE reg cfg w turns =
     (let s = select_model reg cfg
      in if model s = ''''
         then Returned (Some (Errorf ''no model is available'' [] None)) s w turns
         else loop reg cfg s w turns)"

section \<open>The Google provider\<close>

text \<open>
  The keyring library the provider calls (go-keyring), as a map from service and user
  to the secret: \<open>Get\<close> and \<open>Delete\<close> of a secret that is not stored return the
  library's \<open>ErrNotFound\<close>.
\<close>

type_synonym keyring = "string \<times> string \<rightharpoonup> string"

definition keyringServiceName :: string where
  "keyringServiceName = ''climage''"

definition keyring_Set :: "keyring \<Rightarrow> string \<Rightarrow> string \<Rightarrow> string \<Rightarrow> error option \<times> keyring" where
  "keyring_Set kr service user password = (None, kr((service, user) \<mapsto> password))"

definition keyring_Get :: "keyring \<Rightarrow> string \<Rightarrow> string \<Rightarrow> error + string" where
  "keyring_Get kr service user =
     (case kr (service, user) of None \<Rightarrow> Inl ErrNotFound | Some password \<Rightarrow> Inr password)"

definition keyring_Delete :: "keyring \<Rightarrow> string \<Rightarrow> string \<Rightarrow> error option \<times> keyring" where
  "keyring_Delete kr service user =
     (case kr (service, user) of
        None \<Rightarrow> (Some ErrNotFound, kr)
      | Some password \<Rightarrow> (None, kr((service, user) := None)))"

text \<open>
  What the backend returns (the types of the genai library, with the fields the
  provider reads or sets). The image pointer of an entry is taken not to be nil; an entry
  that was filtered upstream has no bytes and no content type, and its reason set.
\<close>

record Image =
  ImageBytes :: string
  MIMEType :: string

record GeneratedImage =
  gen_Image :: Image
  RAIFilteredReason :: string

record GenerateImagesConfig =
  NumberOfImages :: "32 word"
  AspectRatio :: string
  IncludeRAIReason :: bool

text \<open>
  The collaborators of the provider: creating a client for an API key, the generation
  call of a client, the downloads directory, the time of the call in RFC 3339 and
  whether a file can be written. A client handle is a string.
\<close>

record google_env =
  NewClient :: "string \<Rightarrow> error + string"
  GenerateImages :: "string \<Rightarrow> string \<Rightarrow> string \<Rightarrow> GenerateImagesConfig \<Rightarrow> error + GeneratedImage list"
  GetUserDownloadsDir :: "error + string"
  Now :: string
  WriteFile :: "string \<Rightarrow> string \<Rightarrow> error option"

text \<open>The world of the provider: its field \<open>client\<close>, the keyring and the files written.\<close>

record google_world =
  client :: "string option"
  secrets :: keyring
  files :: "string \<rightharpoonup> string"

text \<open>
  \<open>filepath.Join\<close> of a cleaned directory that is not the root and one file name.
\<close>

definition filepath_Join :: "string \<Rightarrow> string \<Rightarrow> string" where
  "filepath_Join dir file = dir @ ''/'' @ file"

definition getOutDir :: "google_env \<Rightarrow> error + string" where
  "getOutDir env =
     (case GetUserDownloadsDir env of
        Inl err \<Rightarrow> Inl (Errorf ''failed to get user downloads dir: %w'' [] (Some err))
      | Inr dir \<Rightarrow> Inr (filepath_Join dir ''climage''))"

text \<open>The verb \<^verbatim>\<open>%x\<close> on an index: lower-case hexadecimal without leading zeros.\<close>

definition hex_digit :: "nat \<Rightarrow> char" where
  "hex_digit d = ''0123456789abcdef'' ! d"

fun hex :: "nat \<Rightarrow> string" where
  "hex n = (if n < 16 then [hex_digit n] else hex (n div 16) @ [hex_digit (n mod 16)])"

declare hex.simps [simp del]

definition ext_of :: "string \<Rightarrow> string option" where
  "ext_of mime =
     (if mime = ''image/png'' then Some ''.png''
      else if mime = ''image/jpeg'' then Some ''.jpg''
      else if mime = ''image/gif'' then Some ''.gif''
      else None)"

definition image_path :: "google_env \<Rightarrow> string \<Rightarrow> nat \<Rightarrow> string \<Rightarrow> string" where
  "image_path env dir i ext = filepath_Join dir (Now env @ ''_'' @ hex i @ ''_'' @ ext)"




definition google_GetLoginFields :: "LoginField list" where
  "google_GetLoginFields =
     [\<lparr>field_Name = ''api_key'', field_DisplayName = ''API Key'', field_Type = ''string'',
       Secret = True\<rparr>]"

definition google_SaveCredentials :: "Credentials \<Rightarrow> google_world \<Rightarrow> error option \<times> google_world" where
  "google_SaveCredentials credentials w =
     (case credentials ''api_key'' of
        None \<Rightarrow> (Some (Errorf ''api_key not provided'' [] None), w)
      | Some apiKey \<Rightarrow>
          (case keyring_Set (secrets w) keyringServiceName ''google'' apiKey of
             (r, kr) \<Rightarrow> (r, w\<lparr>secrets := kr\<rparr>)))"

definition google_LoadCredentials :: "google_world \<Rightarrow> (error + Credentials) \<times> google_world" where
  "google_LoadCredentials w =
     (case keyring_Get (secrets w) keyringServiceName ''google'' of
        Inl err \<Rightarrow> (Inl (Errorf ''not logged in to Google'' [] None), w)
      | Inr apiKey \<Rightarrow> (Inr [''api_key'' \<mapsto> apiKey], w))"

definition google_DeleteCredentials :: "google_world \<Rightarrow> error option \<times> google_world" where
  "google_DeleteCredentials w =
     (case keyring_Delete (secrets w) keyringServiceName ''google'' of
        (r, kr) \<Rightarrow> (r, w\<lparr>secrets := kr\<rparr>))"

definition google_Login :: "google_env \<Rightarrow> Credentials \<Rightarrow> google_world \<Rightarrow> error option \<times> google_world" where
  "google_Login env credentials w =
     (if client w \<noteq> None then (None, w)
      else (case credentials ''api_key'' of
              None \<Rightarrow> (Some (Errorf ''api_key not provided'' [] None), w)
            | Some apiKey \<Rightarrow>
                (case NewClient env apiKey of
                   Inl err \<Rightarrow> (Some (Errorf ''failed to create GenAI client: %w'' [] (Some err)), w)
                 | Inr c \<Rightarrow> (None, w\<lparr>client := Some c\<rparr>))))"

definition google_Close :: "google_world \<Rightarrow> error option \<times> google_world" where
  "google_Close w = (None, w\<lparr>client := None\<rparr>)"

text \<open>
  The loop of \<open>GenerateImage\<close> over the images of the response, with the index \<open>i\<close> and
  the accumulator \<open>filePaths\<close>: an unsupported content type or a failed write returns
  the error and no paths. The source discards the result of creating the directory, so
  that call is left out.
\<close>

fun write_images ::
  "google_env \<Rightarrow> string \<Rightarrow> nat \<Rightarrow> GeneratedImage list \<Rightarrow> string list \<Rightarrow> google_world
     \<Rightarrow> (error + string list) \<times> google_world" where
  "write_images env dir i [] filePaths w = (Inr filePaths, w)"
| "write_images env dir i (img # imgs) filePaths w =
     (case ext_of (MIMEType (gen_Image img)) of
        None \<Rightarrow>
          (Inl (Errorf ''unsupported image type: %q'' [MIMEType (gen_Image img)] None), w)
      | Some ext \<Rightarrow>
          (let filePath = image_path env dir i ext
           in case WriteFile env filePath (ImageBytes (gen_Image img)) of
                Some err \<Rightarrow> (Inl (Errorf ''failed to write image: %w'' [] (Some err)), w)
              | None \<Rightarrow>
                  write_images env dir (Suc i) imgs (filePaths @ [filePath])
                    (w\<lparr>files := (files w)(filePath \<mapsto> ImageBytes (gen_Image img))\<rparr>)))"

definition images_config :: "ModelSettings \<Rightarrow> GenerateImagesConfig" where
  "images_config settings =
     \<lparr>NumberOfImages = word_of_int (GetModelSettingInt settings ''number_of_images'' 1),
      AspectRatio = GetModelSettingString settings ''aspect_ratio'' ''1:1'',
      IncludeRAIReason = True\<rparr>"

text \<open>
  After the lazy login: the call of the backend and the writing of the images. A login
  that returns nil has set the client, so the branch of \<open>google_GenerateImage\<close> for a
  client that is still nil then is never taken.
\<close>

definition generate_with ::
  "google_env \<Rightarrow> string \<Rightarrow> string \<Rightarrow> string \<Rightarrow> ModelSettings \<Rightarrow> google_world
     \<Rightarrow> (error + string list) \<times> google_world" where
  "generate_with env c modelName text settings w =
     (case GenerateImages env c modelName text (images_config settings) of
        Inl err \<Rightarrow> (Inl (Errorf ''google: %w'' [] (Some err)), w)
      | Inr generatedImages \<Rightarrow>
          (case getOutDir env of
             Inl err \<Rightarrow> (Inl (Errorf ''failed to get out dir: %w'' [] (Some err)), w)
           | Inr dir \<Rightarrow> write_images env dir 0 generatedImages [] w))"

definition google_GenerateImage ::
  "google_env \<Rightarrow> string \<Rightarrow> string \<Rightarrow> ModelSettings \<Rightarrow> google_world
     \<Rightarrow> (error + string list) \<times> google_world" where
  "google_GenerateImage env modelName text settings w =
     (case client w of
        Some c \<Rightarrow> generate_with env c modelName text settings w
      | None \<Rightarrow>
          (case google_LoadCredentials w of
             (Inl err, w1) \<Rightarrow> (Inl err, w1)
           | (Inr credentials, w1) \<Rightarrow>
               (case google_Login env credentials w1 of
                  (Some err, w2) \<Rightarrow> (Inl (Errorf ''failed to login to Google: %w'' [] (Some err)), w2)
                | (None, w2) \<Rightarrow>
                    (case client w2 of
                       Some c \<Rightarrow> generate_with env c modelName text settings w2
                     | None \<Rightarrow> (Inl (External ''nil pointer dereference''), w2)))))"

definition googleSettings :: ModelSettings where
  "googleSettings =
     [\<lparr>DisplayName = ''Number of Images'', Name = ''number_of_images'', Type = ''int'',
       DefaultValue = ''1'', Value = ''''\<rparr>,
      \<lparr>DisplayName = ''Aspect Ratio'', Name = ''aspect_ratio'',
       Type = ''enum:1:1|16:9|4:3|9:16|3:4'', DefaultValue = ''1:1'', Value = ''''\<rparr>]"

definition GoogleModels :: "Model list" where
  "GoogleModels =
     [\<lparr>model_Name = ''imagen-4.0-generate-001'', model_DisplayName = ''Imagen 4'',
       Settings = googleSettings\<rparr>,
      \<lparr>model_Name = ''imagen-4.0-ultra-generate-001'', model_DisplayName = ''Imagen 4 Ultra'',
       Settings = googleSettings\<rparr>,
      \<lparr>model_Name = ''imagen-4.0-fast-generate-001'', model_DisplayName = ''Imagen 4 Fast'',
       Settings = googleSettings\<rparr>]"

definition GoogleProvider :: "google_env \<Rightarrow> google_world Provider" where
  "GoogleProvider env =
     \<lparr>GetName = ''google'',
      GetLoginFields = google_GetLoginFields,
      SaveCredentials = google_SaveCredentials,
      LoadCredentials = google_LoadCredentials,
      DeleteCredentials = google_DeleteCredentials,
      Login = google_Login env,
      GenerateImage = google_GenerateImage env,
      GetModels = GoogleModels,
      Close = google_Close\<rparr>"

section \<open>Example providers\<close>

text \<open>
  A provider for the examples: it has a name and a catalog, its \<open>Close\<close> and its
  \<open>GenerateImage\<close> return what they are given here, and its world is the log of the
  calls made.
\<close>

definition example_Provider ::
  "string \<Rightarrow> Model list \<Rightarrow> error option \<Rightarrow> (error + string list) \<Rightarrow> string list Provider" where
  "example_Provider name models close_result generate_result =
     \<lparr>GetName = name,
      GetLoginFields = [],
      SaveCredentials = (\<lambda>credentials w. (None, w @ [''SaveCredentials '' @ name])),
      LoadCredentials = (\<lambda>w. (Inr Map.empty, w @ [''LoadCredentials '' @ name])),
      DeleteCredentials = (\<lambda>w. (None, w @ [''DeleteCredentials '' @ name])),
      Login = (\<lambda>credentials w. (None, w @ [''Login '' @ name])),
      GenerateImage = (\<lambda>modelName text settings w. (generate_result, w @ [''GenerateImage '' @ name])),
      GetModels = models,
      Close = (\<lambda>w. (close_result, w @ [''Close '' @ name]))\<rparr>"

definition example_Model :: "string \<Rightarrow> string \<Rightarrow> Model" where
  "example_Model name default_size =
     \<lparr>model_Name = name, model_DisplayName = name,
      Settings = [\<lparr>DisplayName = ''Size'', Name = ''size'', Type = ''int'',
                   DefaultValue = default_size, Value = ''''\<rparr>]\<rparr>"

text \<open>
  Collaborators for the examples of the Google provider: one API key is valid, the
  backend answers every call with the given response and every file can be written.
\<close>

definition example_env :: "(error + GeneratedImage list) \<Rightarrow> google_env" where
  "example_env response =
     \<lparr>NewClient = (\<lambda>apiKey. if apiKey = ''valid-key'' then Inr ''client''
                              else Inl (External ''API key not valid'')),
      GenerateImages = (\<lambda>c modelName text config. response),
      GetUserDownloadsDir = Inr ''/home/user/Downloads'',
      Now = ''2025-10-01T12:00:00Z'',
      WriteFile = (\<lambda>path bytes. None)\<rparr>"

definition png :: "string \<Rightarrow> GeneratedImage" where
  "png bytes = \<lparr>gen_Image = \<lparr>ImageBytes = bytes, MIMEType = ''image/png''\<rparr>,
                RAIFilteredReason = ''''\<rparr>"


section \<open>The settings schema: what \<open>IsOfType\<close> accepts\<close>

lemma Split_not_Nil: "Split sep s \<noteq> []"
  by (induction s) (auto split: list.splits)

lemma IsOfType_primitive:
  "IsOfType float_ok v ''int'' = (Atoi v \<noteq> None)"
  "IsOfType float_ok v ''float'' = float_ok v"
  "IsOfType float_ok v ''string''"
  "IsOfType float_ok v ''boolean'' = (v = ''true'' \<or> v = ''false'')"
  by (simp_all add: IsOfType_def)

lemma IsOfType_enum:
  "IsOfType float_ok v (''enum:'' @ u) = (v \<in> set (Split CHR ''|'' u))"
  by (simp add: IsOfType_def CutPrefix_def Split_not_Nil)

lemma IsOfType_unknown:
  "t \<notin> {''int'', ''float'', ''string'', ''boolean''} \<Longrightarrow> CutPrefix t ''enum:'' = None \<Longrightarrow>
   \<not> IsOfType float_ok v t"
  by (simp add: IsOfType_def)

text \<open>
  C3. The primitive types, the membership test of a non-empty variant list and the
  rejection of unknown types are as the grammar says (the three lemmas above). The empty
  variant list is not: the guard \<open>length unionFields = 0\<close> can never fire, because
  \<open>Split\<close> of the empty text is the one empty field, so the type \<open>enum:\<close> accepts the
  empty candidate instead of rejecting every candidate.
\<close>

theorem IsOfType_empty_variant_list_accepts_empty_value:
  "\<forall>float_ok. IsOfType float_ok '''' ''enum:'' = True"
  by (simp add: IsOfType_def CutPrefix_def)

section \<open>The typed accessors of a settings collection\<close>

lemma GetModelSettingString_find:
  "GetModelSettingString ms name d =
     (case find (\<lambda>m. Name m = name) ms of None \<Rightarrow> d | Some m \<Rightarrow> Value m)"
  by (induction ms) simp_all

lemma GetModelSettingInt_find:
  "GetModelSettingInt ms name d =
     (case find (\<lambda>m. Name m = name) ms of
        None \<Rightarrow> d
      | Some m \<Rightarrow> (case Atoi (Value m) of None \<Rightarrow> d | Some v \<Rightarrow> v))"
  by (induction ms) simp_all

text \<open>
  C5, as the code has it. \<open>GetModelSettingBool\<close> looks at the first setting with the
  name: when there is one the result is whether its value is the literal \<open>true\<close>,
  whatever the default; the default is returned only when no setting has the name.
\<close>

theorem GetModelSettingBool_first_match:
  "GetModelSettingBool ms name d =
     (case find (\<lambda>m. Name m = name) ms of None \<Rightarrow> d | Some m \<Rightarrow> Value m = ''true'')"
  by (induction ms) simp_all

theorem GetModelSettingBool_first_match_witness:
  "GetModelSettingBool
     [\<lparr>DisplayName = ''Upscale'', Name = ''upscale'', Type = ''boolean'',
       DefaultValue = ''true'', Value = ''false''\<rparr>] ''upscale'' True = False
   \<and> GetModelSettingBool
     [\<lparr>DisplayName = ''Upscale'', Name = ''upscale'', Type = ''boolean'',
       DefaultValue = ''true'', Value = ''false''\<rparr>] ''seed'' True = True"
  using GetModelSettingBool_first_match
    [of "[\<lparr>DisplayName = ''Upscale'', Name = ''upscale'', Type = ''boolean'',
       DefaultValue = ''true'', Value = ''false''\<rparr>]" "''upscale''" True]
   GetModelSettingBool_first_match
    [of "[\<lparr>DisplayName = ''Upscale'', Name = ''upscale'', Type = ''boolean'',
       DefaultValue = ''true'', Value = ''false''\<rparr>]" "''seed''" True]
  by simp

text \<open>
  C5, as the claim states it, fails: a present setting whose value is neither \<open>true\<close>
  nor \<open>false\<close> does not yield a default of true.
\<close>

theorem GetModelSettingBool_counterexample:
  "\<not> (GetModelSettingBool
     [\<lparr>DisplayName = ''Upscale'', Name = ''upscale'', Type = ''boolean'',
       DefaultValue = ''true'', Value = ''maybe''\<rparr>] ''upscale'' True = True)"
  by simp

text \<open>
  C7. With no setting of the name, \<open>GetModelSettingString\<close> and \<open>GetModelSettingInt\<close>
  return the supplied default; so does \<open>GetModelSettingInt\<close> when the setting it finds
  holds a value that \<open>Atoi\<close> rejects. Both accessors return a plain value: their
  results have no error component.
\<close>

theorem GetModelSetting_defaults:
  "((\<forall>m \<in> set ms. Name m \<noteq> name) \<longrightarrow>
      GetModelSettingString ms name ds = ds \<and> GetModelSettingInt ms name di = di)
   \<and> (find (\<lambda>m. Name m = name) ms = Some m \<and> Atoi (Value m) = None \<longrightarrow>
      GetModelSettingInt ms name di = di)"
proof (intro conjI impI)
  assume absent: "\<forall>m \<in> set ms. Name m \<noteq> name"
  then have "find (\<lambda>m. Name m = name) ms = None"
    by (simp add: find_None_iff)
  then show "GetModelSettingString ms name ds = ds" and "GetModelSettingInt ms name di = di"
    by (simp_all add: GetModelSettingString_find GetModelSettingInt_find)
next
  assume "find (\<lambda>m. Name m = name) ms = Some m \<and> Atoi (Value m) = None"
  then show "GetModelSettingInt ms name di = di"
    by (simp add: GetModelSettingInt_find)
qed

theorem GetModelSetting_defaults_witness:
  "GetModelSettingString
     [\<lparr>DisplayName = ''Number of Images'', Name = ''number_of_images'', Type = ''int'',
       DefaultValue = ''1'', Value = ''many''\<rparr>] ''aspect_ratio'' ''1:1'' = ''1:1''
   \<and> GetModelSettingInt
     [\<lparr>DisplayName = ''Number of Images'', Name = ''number_of_images'', Type = ''int'',
       DefaultValue = ''1'', Value = ''many''\<rparr>] ''seed'' 7 = 7
   \<and> GetModelSettingInt
     [\<lparr>DisplayName = ''Number of Images'', Name = ''number_of_images'', Type = ''int'',
       DefaultValue = ''1'', Value = ''many''\<rparr>] ''number_of_images'' 1 = 1"
proof -
  let ?ms = "[\<lparr>DisplayName = ''Number of Images'', Name = ''number_of_images'',
    Type = ''int'', DefaultValue = ''1'', Value = ''many''\<rparr>]"
  have a: "\<forall>m \<in> set ?ms. Name m \<noteq> ''aspect_ratio''" by simp
  have b: "\<forall>m \<in> set ?ms. Name m \<noteq> ''seed''" by simp
  have c: "find (\<lambda>m. Name m = ''number_of_images'') ?ms = Some (hd ?ms)
    \<and> Atoi (Value (hd ?ms)) = None"
    by (simp add: Atoi_def digit_def)
  from a b c show ?thesis
    using GetModelSetting_defaults [of ?ms "''aspect_ratio''" "''1:1''" 0 "hd ?ms"]
      GetModelSetting_defaults [of ?ms "''seed''" "''''" 7 "hd ?ms"]
      GetModelSetting_defaults [of ?ms "''number_of_images''" "''''" 1 "hd ?ms"]
    by blast
qed

section \<open>The registry: lookup and close\<close>

lemma GetProviderByName_find:
  "GetProviderByName ps name =
     (case find (\<lambda>p. GetName p = name) ps of
        None \<Rightarrow> Inl (Errorf ''provider %q not found'' [name] None)
      | Some p \<Rightarrow> Inr p)"
  by (induction ps) simp_all

text \<open>
  C9. A name that no registered provider has gives the not-found error. A name that some
  registered provider has gives the first provider of that name in registration order,
  also when several share it; the result depends on the registry and the name only.
  Every successful result is a registered provider of the name asked for.
\<close>

theorem GetProviderByName_spec:
  "((\<forall>p \<in> set ps. GetName p \<noteq> name) \<longrightarrow>
      GetProviderByName ps name = Inl (Errorf ''provider %q not found'' [name] None))
   \<and> ((\<exists>p \<in> set ps. GetName p = name) \<longrightarrow>
      (\<exists>i < length ps. GetProviderByName ps name = Inr (ps ! i)
         \<and> GetName (ps ! i) = name \<and> (\<forall>j < i. GetName (ps ! j) \<noteq> name)))
   \<and> (\<forall>p. GetProviderByName ps name = Inr p \<longrightarrow> p \<in> set ps \<and> GetName p = name)"
proof (intro conjI impI allI)
  assume "\<forall>p \<in> set ps. GetName p \<noteq> name"
  then have "find (\<lambda>p. GetName p = name) ps = None"
    by (simp add: find_None_iff)
  then show "GetProviderByName ps name = Inl (Errorf ''provider %q not found'' [name] None)"
    by (simp add: GetProviderByName_find)
next
  assume "\<exists>p \<in> set ps. GetName p = name"
  then obtain p where "find (\<lambda>p. GetName p = name) ps = Some p"
    by (cases "find (\<lambda>p. GetName p = name) ps") (auto simp: find_None_iff)
  moreover from this obtain i where
    "i < length ps" "GetName (ps ! i) = name" "p = ps ! i" "\<forall>j < i. GetName (ps ! j) \<noteq> name"
    by (auto simp: find_Some_iff)
  ultimately show "\<exists>i < length ps. GetProviderByName ps name = Inr (ps ! i)
      \<and> GetName (ps ! i) = name \<and> (\<forall>j < i. GetName (ps ! j) \<noteq> name)"
    by (intro exI [of _ i]) (simp add: GetProviderByName_find)
next
  fix p
  assume "GetProviderByName ps name = Inr p"
  then have "find (\<lambda>p. GetName p = name) ps = Some p"
    by (simp add: GetProviderByName_find split: option.splits)
  then show "p \<in> set ps" and "GetName p = name"
    by (auto simp: find_Some_iff)
qed

theorem GetProviderByName_spec_witness:
  "GetProviderByName
     [example_Provider ''twin'' [example_Model ''first'' ''1''] None (Inr []),
      example_Provider ''twin'' [example_Model ''second'' ''2''] None (Inr [])] ''nonexistent''
     = Inl (Errorf ''provider %q not found'' [''nonexistent''] None)
   \<and> GetProviderByName
     [example_Provider ''twin'' [example_Model ''first'' ''1''] None (Inr []),
      example_Provider ''twin'' [example_Model ''second'' ''2''] None (Inr [])] ''twin''
     = Inr (example_Provider ''twin'' [example_Model ''first'' ''1''] None (Inr []))
   \<and> example_Provider ''twin'' [example_Model ''first'' ''1''] None (Inr [])
     \<noteq> example_Provider ''twin'' [example_Model ''second'' ''2''] None (Inr [])"
proof -
  let ?a = "example_Provider ''twin'' [example_Model ''first'' ''1''] None (Inr [])"
  let ?b = "example_Provider ''twin'' [example_Model ''second'' ''2''] None (Inr [])"
  have names: "GetName ?a = ''twin''" "GetName ?b = ''twin''"
    by (simp_all add: example_Provider_def)
  have absent: "\<forall>p \<in> set [?a, ?b]. GetName p \<noteq> ''nonexistent''"
    by (simp add: names)
  have present: "\<exists>p \<in> set [?a, ?b]. GetName p = ''twin''"
    by (simp add: names)
  from present GetProviderByName_spec [of "[?a, ?b]" "''twin''"]
  obtain i where i: "GetProviderByName [?a, ?b] ''twin'' = Inr ([?a, ?b] ! i)"
      "\<forall>j < i. GetName ([?a, ?b] ! j) \<noteq> ''twin''"
    by blast
  have "i = 0"
  proof (rule ccontr)
    assume "i \<noteq> 0"
    then have "0 < i" by simp
    with i(2) have "GetName ([?a, ?b] ! 0) \<noteq> ''twin''" by blast
    then show False by (simp add: names)
  qed
  with i(1) have first: "GetProviderByName [?a, ?b] ''twin'' = Inr ?a"
    by simp
  have "GetModels ?a \<noteq> GetModels ?b"
    by (simp add: example_Provider_def example_Model_def)
  then have differ: "?a \<noteq> ?b"
    by auto
  from absent GetProviderByName_spec [of "[?a, ?b]" "''nonexistent''"] first differ
  show ?thesis
    by blast
qed

lemma Close_loop_Cons_acc:
  "Close_loop ps (e # errs) w = (e # fst (Close_loop ps errs w), snd (Close_loop ps errs w))"
  by (induction ps arbitrary: errs w) (auto split: prod.splits option.splits)

lemma Close_loop_world:
  "snd (Close_loop ps errs w) = foldl (\<lambda>w p. snd (Close p w)) w ps"
  by (induction ps arbitrary: errs w) (auto split: prod.splits option.splits)

lemma world_before_Suc:
  "world_before (p # ps) w (Suc i) = world_before ps (snd (Close p w)) i"
  by (simp add: world_before_def)

lemma close_failure_Suc:
  "close_failure (p # ps) w (Suc i) = close_failure ps (snd (Close p w)) i"
  by (simp add: close_failure_def world_before_Suc)

lemma close_failure_0:
  "close_failure (p # ps) w 0 =
     map_option (\<lambda>err. Errorf ''failed to close provider %q: %w'' [GetName p] (Some err))
       (fst (Close p w))"
  by (simp add: close_failure_def world_before_def)

lemma map_filter_upt_Suc:
  "List.map_filter f [0..<Suc n] =
     (case f 0 of None \<Rightarrow> [] | Some y \<Rightarrow> [y]) @ List.map_filter (\<lambda>i. f (Suc i)) [0..<n]"
proof -
  have "[0..<Suc n] = 0 # [Suc 0..<Suc n]"
    by (rule upt_conv_Cons) simp
  then have u: "[0..<Suc n] = 0 # map Suc [0..<n]"
    by (simp only: map_Suc_upt)
  show ?thesis
    unfolding u by (simp add: List.map_filter_def filter_map comp_def split: option.split)
qed

lemma Close_loop_errs:
  "fst (Close_loop ps [] w) = List.map_filter (close_failure ps w) [0..<length ps]"
proof (induction ps arbitrary: w)
  case Nil
  show ?case by (simp add: List.map_filter_def)
next
  case (Cons p ps)
  obtain r w' where c: "Close p w = (r, w')" by (cases "Close p w")
  show ?case
  proof (cases r)
    case None
    with c Cons [of w'] show ?thesis
      by (simp add: map_filter_upt_Suc close_failure_0 close_failure_Suc del: upt_Suc)
  next
    case (Some err)
    with c Cons [of w'] show ?thesis
      by (simp add: map_filter_upt_Suc close_failure_0 close_failure_Suc Close_loop_Cons_acc
          del: upt_Suc)
  qed
qed

text \<open>
  C8. \<open>providers_Close\<close> runs the \<open>Close\<close> of every registered provider, in
  registration order and each in the world the earlier ones left, whether or not an
  earlier one failed: the world it returns is the world after all of them. Its result
  is nil exactly when no \<open>Close\<close> failed; otherwise it is the join of all the failures,
  each wrapped with the name of its provider, in registration order.
\<close>

theorem providers_Close_attempts_all:
  "snd (providers_Close ps w) = world_before ps w (length ps)
   \<and> fst (providers_Close ps w) =
       (let errs = List.map_filter (close_failure ps w) [0..<length ps]
        in if errs = [] then None else Some (Join errs))
   \<and> (fst (providers_Close ps w) = None \<longleftrightarrow>
        (\<forall>i < length ps. fst (Close (ps ! i) (world_before ps w i)) = None))"
proof -
  obtain errs w' where l: "Close_loop ps [] w = (errs, w')"
    by (cases "Close_loop ps [] w")
  have w': "w' = world_before ps w (length ps)"
    using Close_loop_world [of ps "[]" w] l by (simp add: world_before_def)
  have errs: "errs = List.map_filter (close_failure ps w) [0..<length ps]"
    using Close_loop_errs [of ps w] l by simp
  have none: "errs = [] \<longleftrightarrow> (\<forall>i < length ps. fst (Close (ps ! i) (world_before ps w i)) = None)"
    unfolding errs by (auto simp: List.map_filter_def filter_empty_conv close_failure_def)
  from l w' errs none show ?thesis
    by (simp add: providers_Close_def Let_def)
qed

theorem providers_Close_attempts_all_witness:
  "snd (providers_Close
     [example_Provider ''broken'' [] (Some (External ''connection reset'')) (Inr []),
      example_Provider ''sound'' [] None (Inr [])] [])
     = [''Close broken'', ''Close sound'']
   \<and> fst (providers_Close
     [example_Provider ''broken'' [] (Some (External ''connection reset'')) (Inr []),
      example_Provider ''sound'' [] None (Inr [])] [])
     = Some (Join [Errorf ''failed to close provider %q: %w'' [''broken'']
         (Some (External ''connection reset''))])"
proof -
  let ?ps = "[example_Provider ''broken'' [] (Some (External ''connection reset'')) (Inr []),
      example_Provider ''sound'' [] None (Inr [])]"
  have two: "[0..<length ?ps] = [0, 1]"
    by (simp add: upt_rec)
  have after: "world_before ?ps [] (length ?ps) = [''Close broken'', ''Close sound'']"
    by (simp add: world_before_def example_Provider_def)
  have failures: "List.map_filter (close_failure ?ps []) [0, 1]
      = [Errorf ''failed to close provider %q: %w'' [''broken'']
          (Some (External ''connection reset''))]"
    by (simp add: List.map_filter_def close_failure_def world_before_def example_Provider_def)
  from providers_Close_attempts_all [of ?ps "[]"] show ?thesis
    unfolding two after failures by (simp add: Let_def)
qed

section \<open>The model catalog of a configuration\<close>

lemma Provider_Get_unknown:
  "\<forall>pp \<in> set reg. GetName pp \<noteq> provider_Name p \<Longrightarrow>
   Provider_Get reg p = Inl (Errorf ''provider %q not found'' [provider_Name p] None)"
  by (induction reg) simp_all

lemma GetModels_loop_stops:
  "Provider_Get reg p = Inl err \<Longrightarrow>
   GetModels_loop reg (pre @ p # post) = GetModels_loop reg pre"
  by (induction pre) (simp_all split: sum.splits)

text \<open>
  C10. When an entry of the provider list of a configuration names no registered
  provider, \<open>Config_GetModels\<close> yields what it yields for the entries before it and
  nothing more: nothing for that entry and nothing for any entry after it. When it is
  the first entry no model is yielded at all, and the command returns the error that no
  model is available without reading a prompt.
\<close>

theorem Config_GetModels_stops_at_unknown_provider:
  assumes "cfg_Providers cfg = pre @ p # post"
    and "\<forall>pp \<in> set reg. GetName pp \<noteq> provider_Name p"
  shows "Config_GetModels reg cfg = Config_GetModels reg (cfg\<lparr>cfg_Providers := pre\<rparr>)
    \<and> (pre = [] \<longrightarrow>
          Config_GetModels reg cfg = []
          \<and> RunE reg cfg w turns =
              Returned (Some (Errorf ''no model is available'' [] None))
                \<lparr>prompt = '''', lastPrompt = '''', model = '''', modelSettings = [],
                 display = []\<rparr> w turns)"
proof -
  from assms(2) have unknown:
    "Provider_Get reg p = Inl (Errorf ''provider %q not found'' [provider_Name p] None)"
    by (rule Provider_Get_unknown)
  with assms(1) have stop: "Config_GetModels reg cfg = GetModels_loop reg pre"
    by (simp add: Config_GetModels_def GetModels_loop_stops)
  then have first: "Config_GetModels reg cfg = Config_GetModels reg (cfg\<lparr>cfg_Providers := pre\<rparr>)"
    by (simp add: Config_GetModels_def)
  have "RunE reg cfg w turns =
      Returned (Some (Errorf ''no model is available'' [] None))
        \<lparr>prompt = '''', lastPrompt = '''', model = '''', modelSettings = [], display = []\<rparr>
        w turns"
    if "Config_GetModels reg cfg = []"
    using that by (simp add: RunE_def select_model_def)
  with stop first show ?thesis
    by simp
qed

theorem Config_GetModels_stops_at_unknown_provider_witness:
  "Config_GetModels [example_Provider ''sound'' [example_Model ''m'' ''1''] None (Inr [])]
     \<lparr>cfg_Providers = [\<lparr>provider_Name = ''gone''\<rparr>, \<lparr>provider_Name = ''sound''\<rparr>],
      DefaultModel = ''sound/m'', DefaultModelSettings = Map.empty\<rparr> = []
   \<and> RunE [example_Provider ''sound'' [example_Model ''m'' ''1''] None (Inr [])]
     \<lparr>cfg_Providers = [\<lparr>provider_Name = ''gone''\<rparr>, \<lparr>provider_Name = ''sound''\<rparr>],
      DefaultModel = ''sound/m'', DefaultModelSettings = Map.empty\<rparr> []
     [\<lparr>prompt_form = Inr ''a red fox'', model_form = Inr '''', settings_form = Inr []\<rparr>]
     = Returned (Some (Errorf ''no model is available'' [] None))
         \<lparr>prompt = '''', lastPrompt = '''', model = '''', modelSettings = [], display = []\<rparr> []
         [\<lparr>prompt_form = Inr ''a red fox'', model_form = Inr '''', settings_form = Inr []\<rparr>]
   \<and> Config_GetModels [example_Provider ''sound'' [example_Model ''m'' ''1''] None (Inr [])]
     \<lparr>cfg_Providers = [\<lparr>provider_Name = ''sound''\<rparr>],
      DefaultModel = ''sound/m'', DefaultModelSettings = Map.empty\<rparr>
     = [(''sound/m'', example_Model ''m'' ''1'')]"
proof -
  let ?reg = "[example_Provider ''sound'' [example_Model ''m'' ''1''] None (Inr [])]"
  let ?cfg = "\<lparr>cfg_Providers = [\<lparr>provider_Name = ''gone''\<rparr>, \<lparr>provider_Name = ''sound''\<rparr>],
      DefaultModel = ''sound/m'', DefaultModelSettings = Map.empty\<rparr>"
  have split: "cfg_Providers ?cfg = [] @ \<lparr>provider_Name = ''gone''\<rparr> # [\<lparr>provider_Name = ''sound''\<rparr>]"
    by simp
  have unknown: "\<forall>pp \<in> set ?reg. GetName pp \<noteq> provider_Name \<lparr>provider_Name = ''gone''\<rparr>"
    by (simp add: example_Provider_def)
  have alone: "Config_GetModels ?reg
     \<lparr>cfg_Providers = [\<lparr>provider_Name = ''sound''\<rparr>],
      DefaultModel = ''sound/m'', DefaultModelSettings = Map.empty\<rparr>
     = [(''sound/m'', example_Model ''m'' ''1'')]"
    by (simp add: Config_GetModels_def example_Provider_def example_Model_def)
  let ?turns = "[\<lparr>prompt_form = Inr ''a red fox'', model_form = Inr '''', settings_form = Inr []\<rparr>]"
  note stale = Config_GetModels_stops_at_unknown_provider [OF split unknown,
      where w = "[]" and turns = ?turns]
  from stale have "Config_GetModels ?reg ?cfg = []
    \<and> RunE ?reg ?cfg [] ?turns
      = Returned (Some (Errorf ''no model is available'' [] None))
          \<lparr>prompt = '''', lastPrompt = '''', model = '''', modelSettings = [], display = []\<rparr> []
          ?turns"
    by blast
  with alone show ?thesis
    by blast
qed

section \<open>The session: choosing a model\<close>

lemma GetModels_loop_longer:
  "(modelName, m) \<in> set (GetModels_loop reg ps) \<Longrightarrow> length (model_Name m) < length modelName"
  by (induction ps) (auto split: sum.splits)

lemma no_entry_is_its_own_identifier:
  "find (\<lambda>(modelName, m). model_Name m = modelName) (Config_GetModels reg cfg) = None"
  by (auto simp: find_None_iff Config_GetModels_def dest: GetModels_loop_longer)

text \<open>
  A pass for \<open>/models\<close> in which the picker returns a choice sets the model identifier
  and shows the catalog, and leaves the settings collection as it was, for every
  registry, configuration and session.
\<close>

lemma models_command_keeps_settings:
  "prompt_form t = Inr ''/models'' \<Longrightarrow> model_form t = Inr choice \<Longrightarrow>
   run reg cfg t s w =
     (None,
      s\<lparr>prompt := ''/models'',
        display := display s @
          [ModelOptions (map (\<lambda>(modelName, m). (model_DisplayName m, modelName))
             (Config_GetModels reg cfg))],
        model := choice\<rparr>, w)"
  by (simp add: run_def no_entry_is_its_own_identifier)

text \<open>
  C2. A provider with two models whose settings differ; the session starts on the first
  model. After \<open>/models\<close> and the choice of the second model the session has the
  identifier of the second model and still the settings collection of the first.
\<close>

theorem models_command_does_not_update_settings:
  "RunE [example_Provider ''p'' [example_Model ''a'' ''512'', example_Model ''b'' ''1024'']
           None (Inr [])]
     \<lparr>cfg_Providers = [\<lparr>provider_Name = ''p''\<rparr>], DefaultModel = ''p/a'',
      DefaultModelSettings = Map.empty\<rparr> []
     [\<lparr>prompt_form = Inr ''/models'', model_form = Inr ''p/b'', settings_form = Inr []\<rparr>]
   = AwaitingPrompt
       \<lparr>prompt = '''', lastPrompt = '''', model = ''p/b'',
        modelSettings = Settings (example_Model ''a'' ''512''),
        display = [ModelOptions [(''a'', ''p/a''), (''b'', ''p/b'')]]\<rparr> []
   \<and> Settings (example_Model ''a'' ''512'') \<noteq> Settings (example_Model ''b'' ''1024'')"
  by (simp add: RunE_def select_model_def run_def Config_GetModels_def example_Provider_def
      example_Model_def)

section \<open>The Google provider: credentials\<close>




section \<open>The Google provider: generation\<close>

lemma google_Login_sets_client:
  "google_Login env credentials w = (None, w') \<Longrightarrow> client w' \<noteq> None"
  by (auto simp: google_Login_def split: if_splits option.splits sum.splits)







section \<open>The session: a generation that fails\<close>

lemma errors_Is_wrapped:
  "errors_Is (Errorf f ops (Some err)) ErrExit = errors_Is err ErrExit"
  "errors_Is (Errorf f ops (Some err)) ErrUserAborted = errors_Is err ErrUserAborted"
  by simp_all

lemma generate_failure:
  assumes "\<not> HasPrefix (prompt s) ''/''"
    and "SplitN2 CHR ''/'' (model s) = [providerName, modelName]"
    and "GetProviderByName reg providerName = Inr pp"
    and "GenerateImage pp modelName (prompt s) (modelSettings s) w = (Inl err, w')"
  shows "generate reg s w = (Some (Errorf ''failed to generate image: %w'' [] (Some err)), s, w')"
  using assms by (simp add: generate_def)

text \<open>
  C1, as the code has it. A pass whose text is a prompt (or \<open>/retry\<close>, for the last
  prompt) and whose \<open>GenerateImage\<close> returns an error ends the loop: the command returns
  that error wrapped as a failed generation and reads no further turn. The Google
  provider has wrapped a failure of its backend with its name, and a failure of its
  lazy login as a failed login to Google, before the session sees it.
\<close>

theorem generation_error_ends_session:
  "(prompt_form t = Inr line \<and> line \<noteq> ''/models'' \<and> line \<noteq> ''/settings'' \<and> line \<noteq> ''/exit''
      \<and> p = (if line = ''/retry'' then lastPrompt s else line) \<and> \<not> HasPrefix p ''/''
      \<and> SplitN2 CHR ''/'' (model s) = [providerName, modelName]
      \<and> GetProviderByName reg providerName = Inr pp
      \<and> GenerateImage pp modelName p (modelSettings s) w = (Inl err, w')
      \<and> \<not> errors_Is err ErrExit \<and> \<not> errors_Is err ErrUserAborted
    \<longrightarrow> loop reg cfg s w (t # ts) =
          Returned (Some (Errorf ''failed to generate image: %w'' [] (Some err)))
            (s\<lparr>prompt := p\<rparr>) w' ts)
   \<and> (client gw = Some c \<and> GenerateImages env c gm gt (images_config settings) = Inl e
    \<longrightarrow> google_GenerateImage env gm gt settings gw = (Inl (Errorf ''google: %w'' [] (Some e)), gw))
   \<and> (client gw = None \<and> secrets gw (keyringServiceName, ''google'') = Some apiKey
        \<and> NewClient env apiKey = Inl e
    \<longrightarrow> google_GenerateImage env gm gt settings gw =
          (Inl (Errorf ''failed to login to Google: %w'' []
                  (Some (Errorf ''failed to create GenAI client: %w'' [] (Some e)))), gw))"
proof (intro conjI impI)
  assume h: "prompt_form t = Inr line \<and> line \<noteq> ''/models'' \<and> line \<noteq> ''/settings''
      \<and> line \<noteq> ''/exit''
      \<and> p = (if line = ''/retry'' then lastPrompt s else line) \<and> \<not> HasPrefix p ''/''
      \<and> SplitN2 CHR ''/'' (model s) = [providerName, modelName]
      \<and> GetProviderByName reg providerName = Inr pp
      \<and> GenerateImage pp modelName p (modelSettings s) w = (Inl err, w')
      \<and> \<not> errors_Is err ErrExit \<and> \<not> errors_Is err ErrUserAborted"
  let ?s = "s\<lparr>prompt := p\<rparr>"
  from h have np: "\<not> HasPrefix p ''/''"
    and sp: "SplitN2 CHR ''/'' (model s) = [providerName, modelName]"
    and gp: "GetProviderByName reg providerName = Inr pp"
    and gi: "GenerateImage pp modelName p (modelSettings s) w = (Inl err, w')"
    and ne: "\<not> errors_Is err ErrExit" "\<not> errors_Is err ErrUserAborted"
    by blast+
  have g: "generate reg ?s w
      = (Some (Errorf ''failed to generate image: %w'' [] (Some err)), ?s, w')"
    using generate_failure [of ?s providerName modelName reg pp w err w'] np sp gp gi
    by simp
  from h have form: "prompt_form t = Inr line" and cmd: "line \<noteq> ''/models''"
      "line \<noteq> ''/settings''" "line \<noteq> ''/exit''"
    and p: "p = (if line = ''/retry'' then lastPrompt s else line)"
    by blast+
  have "run reg cfg t s w = generate reg ?s w"
    unfolding p using form cmd by (simp add: run_def)
  with g ne show "loop reg cfg s w (t # ts) =
      Returned (Some (Errorf ''failed to generate image: %w'' [] (Some err))) ?s w' ts"
    by (simp add: errors_Is_wrapped)
next
  assume "client gw = Some c \<and> GenerateImages env c gm gt (images_config settings) = Inl e"
  then show "google_GenerateImage env gm gt settings gw
      = (Inl (Errorf ''google: %w'' [] (Some e)), gw)"
    by (simp add: google_GenerateImage_def generate_with_def)
next
  assume "client gw = None \<and> secrets gw (keyringServiceName, ''google'') = Some apiKey
      \<and> NewClient env apiKey = Inl e"
  then show "google_GenerateImage env gm gt settings gw =
      (Inl (Errorf ''failed to login to Google: %w'' []
              (Some (Errorf ''failed to create GenAI client: %w'' [] (Some e)))), gw)"
    by (simp add: google_GenerateImage_def google_LoadCredentials_def keyring_Get_def
        google_Login_def)
qed

theorem generation_error_ends_session_witness:
  "loop [GoogleProvider (example_env (Inl (External ''quota exceeded'')))]
     \<lparr>cfg_Providers = [\<lparr>provider_Name = ''google''\<rparr>],
      DefaultModel = ''google/imagen-4.0-generate-001'', DefaultModelSettings = Map.empty\<rparr>
     \<lparr>prompt = '''', lastPrompt = '''', model = ''google/imagen-4.0-generate-001'',
      modelSettings = googleSettings, display = []\<rparr>
     \<lparr>client = Some ''client'', secrets = Map.empty, files = Map.empty\<rparr>
     [\<lparr>prompt_form = Inr ''a red fox'', model_form = Inr '''', settings_form = Inr []\<rparr>,
      \<lparr>prompt_form = Inr ''a blue fox'', model_form = Inr '''', settings_form = Inr []\<rparr>]
   = Returned
       (Some (Errorf ''failed to generate image: %w'' []
          (Some (Errorf ''google: %w'' [] (Some (External ''quota exceeded''))))))
       \<lparr>prompt = ''a red fox'', lastPrompt = '''', model = ''google/imagen-4.0-generate-001'',
        modelSettings = googleSettings, display = []\<rparr>
       \<lparr>client = Some ''client'', secrets = Map.empty, files = Map.empty\<rparr>
       [\<lparr>prompt_form = Inr ''a blue fox'', model_form = Inr '''', settings_form = Inr []\<rparr>]"
proof -
  let ?env = "example_env (Inl (External ''quota exceeded''))"
  let ?reg = "[GoogleProvider ?env]"
  let ?s = "\<lparr>prompt = '''', lastPrompt = '''', model = ''google/imagen-4.0-generate-001'',
      modelSettings = googleSettings, display = []\<rparr>"
  let ?gw = "\<lparr>client = Some ''client'', secrets = Map.empty, files = Map.empty\<rparr>"
  let ?t = "\<lparr>prompt_form = Inr ''a red fox'', model_form = Inr '''', settings_form = Inr []\<rparr>"
  let ?err = "Errorf ''google: %w'' [] (Some (External ''quota exceeded''))"
  have backend: "client ?gw = Some ''client''
      \<and> GenerateImages ?env ''client'' ''imagen-4.0-generate-001'' ''a red fox''
          (images_config googleSettings) = Inl (External ''quota exceeded'')"
    by (simp add: example_env_def)
  note th = generation_error_ends_session [where env = ?env and gw = ?gw and c = "''client''"
      and gm = "''imagen-4.0-generate-001''" and gt = "''a red fox''"
      and settings = googleSettings and e = "External ''quota exceeded''"
      and t = ?t and line = "''a red fox''" and p = "''a red fox''" and s = ?s
      and providerName = "''google''" and modelName = "''imagen-4.0-generate-001''"
      and reg = ?reg and pp = "GoogleProvider ?env" and w = ?gw and w' = ?gw and err = ?err]
  from th backend have gen: "google_GenerateImage ?env ''imagen-4.0-generate-001''
      ''a red fox'' googleSettings ?gw = (Inl ?err, ?gw)"
    by blast
  have hyps: "prompt_form ?t = Inr ''a red fox'' \<and> ''a red fox'' \<noteq> ''/models''
      \<and> ''a red fox'' \<noteq> ''/settings'' \<and> ''a red fox'' \<noteq> ''/exit''
      \<and> ''a red fox'' = (if ''a red fox'' = ''/retry'' then lastPrompt ?s else ''a red fox'')
      \<and> \<not> HasPrefix ''a red fox'' ''/''
      \<and> SplitN2 CHR ''/'' (model ?s) = [''google'', ''imagen-4.0-generate-001'']
      \<and> GetProviderByName ?reg ''google'' = Inr (GoogleProvider ?env)
      \<and> GenerateImage (GoogleProvider ?env) ''imagen-4.0-generate-001'' ''a red fox''
          (modelSettings ?s) ?gw = (Inl ?err, ?gw)
      \<and> \<not> errors_Is ?err ErrExit \<and> \<not> errors_Is ?err ErrUserAborted"
    using gen by (simp add: HasPrefix_def SplitN2_def GoogleProvider_def)
  from th hyps show ?thesis
    by simp
qed

text \<open>
  C1, as the claim states it, fails: after a generation that fails on a login with a
  rejected key the session is not waiting for another prompt; the command has returned
  the error and the next turn is not read.
\<close>

theorem generation_error_counterexample:
  "RunE [GoogleProvider (example_env (Inr [png ''one'']))]
     \<lparr>cfg_Providers = [\<lparr>provider_Name = ''google''\<rparr>],
      DefaultModel = ''google/imagen-4.0-generate-001'', DefaultModelSettings = Map.empty\<rparr>
     \<lparr>client = None, secrets = [(''climage'', ''google'') \<mapsto> ''revoked-key''],
      files = Map.empty\<rparr>
     [\<lparr>prompt_form = Inr ''a red fox'', model_form = Inr '''', settings_form = Inr []\<rparr>,
      \<lparr>prompt_form = Inr ''a blue fox'', model_form = Inr '''', settings_form = Inr []\<rparr>]
   = Returned
       (Some (Errorf ''failed to generate image: %w'' []
          (Some (Errorf ''failed to login to Google: %w'' []
             (Some (Errorf ''failed to create GenAI client: %w'' []
                (Some (External ''API key not valid''))))))))
       \<lparr>prompt = ''a red fox'', lastPrompt = '''', model = ''google/imagen-4.0-generate-001'',
        modelSettings = googleSettings, display = []\<rparr>
       \<lparr>client = None, secrets = [(''climage'', ''google'') \<mapsto> ''revoked-key''],
        files = Map.empty\<rparr>
       [\<lparr>prompt_form = Inr ''a blue fox'', model_form = Inr '''', settings_form = Inr []\<rparr>]"
  by (simp add: RunE_def select_model_def Config_GetModels_def GoogleProvider_def
      GoogleModels_def run_def generate_def HasPrefix_def SplitN2_def
      google_GenerateImage_def google_LoadCredentials_def keyring_Get_def google_Login_def
      keyringServiceName_def example_env_def)

end
